theory Spec2Isabelle
  imports Main
begin

section \<open>Values of a parsed configuration\<close>

text \<open>
  The program reads \<^verbatim>\<open>ffx.yaml\<close> with \<^verbatim>\<open>yaml.safe_load\<close> and hands the resulting
  object to the stage builders. The model covers the objects built from null, booleans,
  integers, floats, strings, sequences and mappings with string keys. Dates, binary
  scalars, sets, mappings with other keys and cyclic structures are outside the model.

  A string is a list of 8-bit characters, read as code points below 256.

  A float is identified by the decimal numeral that \<^verbatim>\<open>repr\<close> prints for it, which
  determines the float: \<open>Finite neg m e\<close> stands for the float printed with the
  significant digits of \<open>m\<close> times ten to the power \<open>e\<close>, negated when \<open>neg\<close> holds
  (so \<open>Finite False 6 (-1)\<close> is \<^verbatim>\<open>0.6\<close> and \<open>Finite True 0 0\<close> is \<^verbatim>\<open>-0.0\<close>).
  The floats of the interpreter have \<open>m\<close> without a trailing decimal zero and of at
  most 17 digits; no definition below depends on that.

  A mapping is an association list in insertion order, since \<^verbatim>\<open>str\<close> of a mapping
  prints its items in that order; the keys of a loaded mapping are distinct.
\<close>

datatype pyfloat = Finite bool nat int | Infinity bool | NaN

datatype pyval =
    VNone
  | VBool bool
  | VInt int
  | VFloat pyfloat
  | VStr string
  | VList "pyval list"
  | VDict "(string \<times> pyval) list"

text \<open>The exceptions the chain construction can raise.\<close>

datatype error = AttributeError | TypeError

text \<open>The float constants that occur in the source.\<close>

definition f0_0 :: pyval where "f0_0 = VFloat (Finite False 0 0)"
definition f1_0 :: pyval where "f1_0 = VFloat (Finite False 1 0)"
definition f0_6 :: pyval where "f0_6 = VFloat (Finite False 6 (-1))"
definition f0_1 :: pyval where "f0_1 = VFloat (Finite False 1 (-1))"
definition f0_4 :: pyval where "f0_4 = VFloat (Finite False 4 (-1))"
definition f2_0 :: pyval where "f2_0 = VFloat (Finite False 2 0)"
definition f1_5 :: pyval where "f1_5 = VFloat (Finite False 15 (-1))"
definition f3_0 :: pyval where "f3_0 = VFloat (Finite False 3 0)"

section \<open>The interpreter's operations on these values\<close>

subsection \<open>Mapping lookup, truth value, comparison with 1.0\<close>

text \<open>
  \<^verbatim>\<open>d.get(k, default)\<close>: only a mapping has the method; on any other object the
  attribute access raises \<^verbatim>\<open>AttributeError\<close>.
\<close>

fun dict_get :: "pyval \<Rightarrow> string \<Rightarrow> pyval \<Rightarrow> error + pyval" where
  "dict_get (VDict kvs) k dflt = Inr (case map_of kvs k of None \<Rightarrow> dflt | Some v \<Rightarrow> v)"
| "dict_get VNone k dflt = Inl AttributeError"
| "dict_get (VBool b) k dflt = Inl AttributeError"
| "dict_get (VInt n) k dflt = Inl AttributeError"
| "dict_get (VFloat f) k dflt = Inl AttributeError"
| "dict_get (VStr s) k dflt = Inl AttributeError"
| "dict_get (VList xs) k dflt = Inl AttributeError"

text \<open>The value of a finite float is zero, respectively one.\<close>

fun float_is_zero :: "pyfloat \<Rightarrow> bool" where
  "float_is_zero (Finite neg m e) = (m = 0)"
| "float_is_zero (Infinity neg) = False"
| "float_is_zero NaN = False"

fun float_is_one :: "pyfloat \<Rightarrow> bool" where
  "float_is_one (Finite neg m e) =
     (\<not> neg \<and> (if 0 \<le> e then m * 10 ^ nat e = 1 else m = 10 ^ nat (- e)))"
| "float_is_one (Infinity neg) = False"
| "float_is_one NaN = False"

text \<open>The truth value of an object, as \<^verbatim>\<open>not\<close> and \<^verbatim>\<open>if\<close> take it.\<close>

fun truthy :: "pyval \<Rightarrow> bool" where
  "truthy VNone = False"
| "truthy (VBool b) = b"
| "truthy (VInt n) = (n \<noteq> 0)"
| "truthy (VFloat f) = (\<not> float_is_zero f)"
| "truthy (VStr s) = (s \<noteq> [])"
| "truthy (VList xs) = (xs \<noteq> [])"
| "truthy (VDict kvs) = (kvs \<noteq> [])"

text \<open>
  \<^verbatim>\<open>v == 1.0\<close>. Booleans and integers compare with a float by value; every other
  object is unequal to a float.
\<close>

fun eq_one :: "pyval \<Rightarrow> bool" where
  "eq_one VNone = False"
| "eq_one (VBool b) = b"
| "eq_one (VInt n) = (n = 1)"
| "eq_one (VFloat f) = float_is_one f"
| "eq_one (VStr s) = False"
| "eq_one (VList xs) = False"
| "eq_one (VDict kvs) = False"

text \<open>
  The number of rounds of \<^verbatim>\<open>for _ in range(v)\<close>: \<^verbatim>\<open>range\<close> takes an integer
  (a boolean is one) and raises \<^verbatim>\<open>TypeError\<close> on anything else; a count below one
  gives no round. Running out of memory on a huge count is not modelled.
\<close>

fun range_len :: "pyval \<Rightarrow> error + nat" where
  "range_len (VInt n) = Inr (nat n)"
| "range_len (VBool b) = Inr (if b then 1 else 0)"
| "range_len VNone = Inl TypeError"
| "range_len (VFloat f) = Inl TypeError"
| "range_len (VStr s) = Inl TypeError"
| "range_len (VList xs) = Inl TypeError"
| "range_len (VDict kvs) = Inl TypeError"

subsection \<open>Strings\<close>

text \<open>\<^verbatim>\<open>sep.join(xs)\<close> on a list of strings.\<close>

fun join :: "string \<Rightarrow> string list \<Rightarrow> string" where
  "join sep [] = []"
| "join sep [x] = x"
| "join sep (x # y # ys) = x @ sep @ join sep (y # ys)"

text \<open>
  The characters \<^verbatim>\<open>str.strip()\<close> removes: those for which \<^verbatim>\<open>str.isspace\<close> holds,
  among the code points below 256.
\<close>

definition is_space :: "char \<Rightarrow> bool" where
  "is_space c = (of_char c \<in> {9, 10, 11, 12, 13, 28, 29, 30, 31, 32, 133, 160 :: nat})"

definition lstrip :: "string \<Rightarrow> string" where
  "lstrip s = dropWhile is_space s"

definition rstrip :: "string \<Rightarrow> string" where
  "rstrip s = rev (dropWhile is_space (rev s))"

definition strip :: "string \<Rightarrow> string" where
  "strip s = rstrip (lstrip s)"

text \<open>\<^verbatim>\<open>s.rstrip(",")\<close> removes every comma at the end.\<close>

definition rstrip_comma :: "string \<Rightarrow> string" where
  "rstrip_comma s = rev (dropWhile (\<lambda>c. c = CHR '','') (rev s))"

subsection \<open>Formatting\<close>

text \<open>
  The digit for a number below 16, and the decimal numeral of a natural number and of an
  integer. The interpreter can be set to refuse the conversion of an integer of
  thousands of digits; that limit is not modelled.
\<close>

definition digit_char :: "nat \<Rightarrow> char" where
  "digit_char d = ''0123456789abcdef'' ! d"

fun digits :: "nat \<Rightarrow> string" where
  "digits n = (if n < 10 then [digit_char n] else digits (n div 10) @ [digit_char (n mod 10)])"

declare digits.simps [simp del]

definition int_str :: "int \<Rightarrow> string" where
  "int_str n = (if n < 0 then ''-'' @ digits (nat (- n)) else digits (nat n))"

text \<open>
  \<^verbatim>\<open>repr\<close> of a float. With \<open>decpt\<close> the position of the decimal point after the
  first \<open>decpt\<close> digits, the exponent form is used when \<open>decpt\<close> is above 16 or below
  -3; the exponent has a sign and at least two digits. Otherwise the digits are printed
  with a point, and \<^verbatim>\<open>.0\<close> is added to a whole number.
\<close>

definition float_repr_digits :: "nat \<Rightarrow> int \<Rightarrow> string" where
  "float_repr_digits m e =
     (let ds = digits m; n = int (length ds); decpt = n + e in
      if decpt \<le> - 4 \<or> 16 < decpt then
        (let x = decpt - 1; xs = digits (nat \<bar>x\<bar>) in
         take 1 ds @ (if 1 < n then ''.'' @ drop 1 ds else [])
         @ ''e'' @ (if x < 0 then ''-'' else ''+'')
         @ (if length xs < 2 then ''0'' @ xs else xs))
      else if decpt \<le> 0 then ''0.'' @ replicate (nat (- decpt)) CHR ''0'' @ ds
      else if decpt < n then take (nat decpt) ds @ ''.'' @ drop (nat decpt) ds
      else ds @ replicate (nat (decpt - n)) CHR ''0'' @ ''.0'')"

fun float_repr :: "pyfloat \<Rightarrow> string" where
  "float_repr (Finite neg m e) = (if neg then ''-'' else []) @ float_repr_digits m e"
| "float_repr (Infinity neg) = (if neg then ''-inf'' else ''inf'')"
| "float_repr NaN = ''nan''"

text \<open>
  \<^verbatim>\<open>repr\<close> of a string: single quotes, unless the string has a single quote and no
  double quote; the quote and the backslash are escaped with a backslash, tab, newline
  and carriage return by their letters, and every other character that is not printable
  by \<^verbatim>\<open>\xhh\<close>.
\<close>

definition printable :: "char \<Rightarrow> bool" where
  "printable c = (let n = (of_char c :: nat) in 32 \<le> n \<and> n < 127 \<or> 160 < n \<and> n \<noteq> 173)"

definition repr_char :: "char \<Rightarrow> char \<Rightarrow> string" where
  "repr_char q c =
     (if c = q \<or> c = CHR 0x5C then [CHR 0x5C, c]
      else if c = CHR 0x09 then [CHR 0x5C, CHR ''t'']
      else if c = CHR 0x0A then [CHR 0x5C, CHR ''n'']
      else if c = CHR 0x0D then [CHR 0x5C, CHR ''r'']
      else if printable c then [c]
      else [CHR 0x5C, CHR ''x'', digit_char (of_char c div 16), digit_char (of_char c mod 16)])"

definition str_repr :: "string \<Rightarrow> string" where
  "str_repr s =
     (let q = (if CHR 0x27 \<in> set s \<and> CHR 0x22 \<notin> set s then CHR 0x22 else CHR 0x27)
      in [q] @ concat (map (repr_char q) s) @ [q])"

text \<open>\<^verbatim>\<open>repr\<close> of an object; sequences and mappings print the \<^verbatim>\<open>repr\<close> of their items.\<close>

fun py_repr :: "pyval \<Rightarrow> string" where
  "py_repr VNone = ''None''"
| "py_repr (VBool b) = (if b then ''True'' else ''False'')"
| "py_repr (VInt n) = int_str n"
| "py_repr (VFloat f) = float_repr f"
| "py_repr (VStr s) = str_repr s"
| "py_repr (VList xs) = ''['' @ join '', '' (map py_repr xs) @ '']''"
| "py_repr (VDict kvs) =
     ''{'' @ join '', '' (map (\<lambda>(k, v). str_repr k @ '': '' @ py_repr v) kvs) @ ''}''"

text \<open>
  What an f-string puts for \<^verbatim>\<open>{v}\<close>: \<^verbatim>\<open>str(v)\<close>, which is the string itself for
  a string and \<^verbatim>\<open>repr(v)\<close> for the other objects.
\<close>

fun py_str :: "pyval \<Rightarrow> string" where
  "py_str (VStr s) = s"
| "py_str v = py_repr v"

section \<open>The program\<close>

text \<open>
  A builder returns a stage expression, \<^verbatim>\<open>None\<close> (here \<open>None\<close>), or raises (here
  \<open>Inl\<close>). \<open>and_then\<close> runs the rest of a function body after a call that may raise.
\<close>

definition and_then :: "error + 'a \<Rightarrow> ('a \<Rightarrow> error + 'b) \<Rightarrow> error + 'b" where
  "and_then m f = (case m of Inl e \<Rightarrow> Inl e | Inr x \<Rightarrow> f x)"

subsection \<open>Utility\<close>

text \<open>
  \<^verbatim>\<open>add_filter(filters, frag)\<close> appends to the list \<^verbatim>\<open>filters\<close> in place; the model
  returns the list after the call.
\<close>

definition add_filter :: "string list \<Rightarrow> string option \<Rightarrow> string list" where
  "add_filter filters frag =
     (case frag of
        None \<Rightarrow> filters
      | Some s \<Rightarrow>
          if s = [] then filters
          else (let t = rstrip_comma (strip s) in
                if t \<noteq> [] then filters @ [t] else filters))"

subsection \<open>Filter builders\<close>

definition build_eq :: "pyval \<Rightarrow> error + string option" where
  "build_eq cfg =
     and_then (dict_get cfg ''eq'' (VDict [])) (\<lambda>c.
     and_then (dict_get c ''enabled'' (VBool False)) (\<lambda>en.
     if \<not> truthy en then Inr None
     else
       and_then (dict_get c ''brightness'' f0_0) (\<lambda>brightness.
       and_then (dict_get c ''contrast'' f1_0) (\<lambda>contrast.
       and_then (dict_get c ''gamma'' f1_0) (\<lambda>gamma.
       and_then (dict_get c ''saturation'' f1_0) (\<lambda>saturation.
       Inr (Some (''eq=''
         @ ''brightness='' @ py_str brightness @ '':''
         @ ''contrast='' @ py_str contrast @ '':''
         @ ''gamma='' @ py_str gamma @ '':''
         @ ''saturation='' @ py_str saturation))))))))"

definition build_unsharp :: "pyval \<Rightarrow> error + string option" where
  "build_unsharp cfg =
     and_then (dict_get cfg ''sharpen'' (VDict [])) (\<lambda>c.
     and_then (dict_get c ''enabled'' (VBool False)) (\<lambda>en.
     if \<not> truthy en then Inr None
     else
       and_then (dict_get c ''main'' (VDict [])) (\<lambda>m.
       and_then (dict_get m ''msize_x'' (VInt 5)) (\<lambda>msize_x.
       and_then (dict_get m ''msize_y'' (VInt 5)) (\<lambda>msize_y.
       and_then (dict_get m ''amount'' f0_6) (\<lambda>amount.
       and_then (dict_get m ''msize_x_chroma'' (VInt 5)) (\<lambda>msize_x_chroma.
       and_then (dict_get m ''msize_y_chroma'' (VInt 5)) (\<lambda>msize_y_chroma.
       and_then (dict_get m ''amount_chroma'' f0_1) (\<lambda>amount_chroma.
       Inr (Some (''unsharp=''
         @ py_str msize_x @ '':'' @ py_str msize_y @ '':'' @ py_str amount @ '':''
         @ py_str msize_x_chroma @ '':'' @ py_str msize_y_chroma @ '':''
         @ py_str amount_chroma)))))))))))"

definition build_extra_sharpen :: "pyval \<Rightarrow> error + string option" where
  "build_extra_sharpen cfg =
     and_then (dict_get cfg ''sharpen'' (VDict [])) (\<lambda>c.
     and_then (dict_get c ''extra_enabled'' (VBool False)) (\<lambda>en.
     if \<not> truthy en then Inr None
     else
       and_then (dict_get c ''extra'' (VDict [])) (\<lambda>e.
       and_then (dict_get e ''msize'' (VInt 3)) (\<lambda>msize1.
       and_then (dict_get e ''msize'' (VInt 3)) (\<lambda>msize2.
       and_then (dict_get e ''amount'' f0_4) (\<lambda>amount.
       Inr (Some (''unsharp=''
         @ py_str msize1 @ '':'' @ py_str msize2 @ '':'' @ py_str amount))))))))"

text \<open>
  The loop \<^verbatim>\<open>for _ in range(passes): chain.append(...)\<close> of \<^verbatim>\<open>build_deblur\<close>, on
  the number of rounds left and the list \<^verbatim>\<open>chain\<close>.
\<close>

fun append_passes :: "nat \<Rightarrow> string \<Rightarrow> string list \<Rightarrow> string list" where
  "append_passes 0 frag chain = chain"
| "append_passes (Suc n) frag chain = append_passes n frag (chain @ [frag])"

definition build_deblur :: "pyval \<Rightarrow> error + string option" where
  "build_deblur cfg =
     and_then (dict_get cfg ''deblur'' (VDict [])) (\<lambda>c.
     and_then (dict_get c ''enabled'' (VBool False)) (\<lambda>en.
     if \<not> truthy en then Inr None
     else
       and_then (dict_get c ''method'' (VStr ''convolution'')) (\<lambda>method.
       if method = VStr ''convolution'' then
         and_then (dict_get c ''kernel'' (VStr ''-1 -1 -1 -1 9 -1 -1 -1 -1'')) (\<lambda>k.
         Inr (Some (''convolution='' @ [CHR 0x27] @ py_str k @ [CHR 0x27])))
       else if method = VStr ''unsharp_multi'' then
         and_then (dict_get c ''passes'' (VInt 2)) (\<lambda>passes.
         and_then (dict_get c ''amount'' f1_0) (\<lambda>amount.
         and_then (dict_get c ''msize'' (VInt 5)) (\<lambda>msize.
         and_then (range_len passes) (\<lambda>n.
         Inr (Some (join '',''
           (append_passes n
              (''unsharp='' @ py_str msize @ '':'' @ py_str msize @ '':'' @ py_str amount)
              [])))))))
       else Inr None)))"

definition build_denoise :: "pyval \<Rightarrow> error + string option" where
  "build_denoise cfg =
     and_then (dict_get cfg ''denoise'' (VDict [])) (\<lambda>c.
     and_then (dict_get c ''enabled'' (VBool False)) (\<lambda>en.
     if \<not> truthy en then Inr None
     else
       and_then (dict_get c ''luma'' f2_0) (\<lambda>luma.
       and_then (dict_get c ''chroma'' f1_5) (\<lambda>chroma.
       and_then (dict_get c ''time'' f3_0) (\<lambda>time.
       and_then (dict_get c ''chroma_time'' f0_0) (\<lambda>chroma_time.
       Inr (Some (''hqdn3d=''
         @ py_str luma @ '':''
         @ py_str chroma @ '':''
         @ py_str time @ '':''
         @ py_str chroma_time))))))))"

definition build_blur :: "pyval \<Rightarrow> error + string option" where
  "build_blur cfg =
     and_then (dict_get cfg ''blur'' (VDict [])) (\<lambda>c.
     and_then (dict_get c ''enabled'' (VBool False)) (\<lambda>en.
     if \<not> truthy en then Inr None
     else
       and_then (dict_get c ''radius'' (VInt 2)) (\<lambda>r.
       Inr (Some (''boxblur='' @ py_str r)))))"

definition build_grain :: "pyval \<Rightarrow> error + string option" where
  "build_grain cfg =
     and_then (dict_get cfg ''grain'' (VDict [])) (\<lambda>c.
     and_then (dict_get c ''enabled'' (VBool False)) (\<lambda>en.
     if \<not> truthy en then Inr None
     else
       and_then (dict_get c ''strength'' (VInt 4)) (\<lambda>strength.
       and_then (dict_get c ''frequency'' (VStr ''p'')) (\<lambda>frequency.
       Inr (Some (''noise=alls='' @ py_str strength @ '':allf='' @ py_str frequency))))))"

text \<open>
  \<^verbatim>\<open>(r, g, b) == (1.0, 1.0, 1.0)\<close> compares the two tuples item by item.
\<close>

definition build_color_channel :: "pyval \<Rightarrow> error + string option" where
  "build_color_channel cfg =
     and_then (dict_get cfg ''color_channels'' (VDict [])) (\<lambda>cc.
     and_then (dict_get cc ''red'' f1_0) (\<lambda>r.
     and_then (dict_get cc ''green'' f1_0) (\<lambda>g.
     and_then (dict_get cc ''blue'' f1_0) (\<lambda>b.
     if list_all eq_one [r, g, b] then Inr None
     else Inr (Some (''eq=red_mul='' @ py_str r @ '':green_mul='' @ py_str g
                     @ '':blue_mul='' @ py_str b))))))"

text \<open>
  \<^verbatim>\<open>",".join(c)\<close> iterates over \<^verbatim>\<open>c\<close>: the items of a sequence, the characters of
  a string, the keys of a mapping; an object that cannot be iterated, or an item that is
  not a string, raises \<^verbatim>\<open>TypeError\<close>.
\<close>

fun str_items :: "pyval list \<Rightarrow> error + string list" where
  "str_items [] = Inr []"
| "str_items (VStr s # xs) = and_then (str_items xs) (\<lambda>ss. Inr (s # ss))"
| "str_items (v # xs) = Inl TypeError"

fun join_iterable :: "string \<Rightarrow> pyval \<Rightarrow> error + string" where
  "join_iterable sep (VList xs) = and_then (str_items xs) (\<lambda>ss. Inr (join sep ss))"
| "join_iterable sep (VStr s) = Inr (join sep (map (\<lambda>c. [c]) s))"
| "join_iterable sep (VDict kvs) = Inr (join sep (map fst kvs))"
| "join_iterable sep v = Inl TypeError"

definition build_custom :: "pyval \<Rightarrow> error + string option" where
  "build_custom cfg =
     and_then (dict_get cfg ''custom_filters'' (VList [])) (\<lambda>c.
     if \<not> truthy c then Inr None
     else and_then (join_iterable '','' c) (\<lambda>s. Inr (Some s)))"

subsection \<open>Main\<close>

text \<open>
  The part of \<^verbatim>\<open>main\<close> that builds \<^verbatim>\<open>filter_chain\<close> from the loaded configuration:
  nine calls of \<^verbatim>\<open>add_filter\<close> on the list \<^verbatim>\<open>filters\<close>, each on the result of one
  builder, and the final join. An exception of a builder ends the program there.
\<close>

definition main_filter_chain :: "pyval \<Rightarrow> error + string" where
  "main_filter_chain cfg =
     (let filters = [] in
      and_then (build_eq cfg) (\<lambda>frag. let filters = add_filter filters frag in
      and_then (build_color_channel cfg) (\<lambda>frag. let filters = add_filter filters frag in
      and_then (build_unsharp cfg) (\<lambda>frag. let filters = add_filter filters frag in
      and_then (build_extra_sharpen cfg) (\<lambda>frag. let filters = add_filter filters frag in
      and_then (build_deblur cfg) (\<lambda>frag. let filters = add_filter filters frag in
      and_then (build_denoise cfg) (\<lambda>frag. let filters = add_filter filters frag in
      and_then (build_blur cfg) (\<lambda>frag. let filters = add_filter filters frag in
      and_then (build_grain cfg) (\<lambda>frag. let filters = add_filter filters frag in
      and_then (build_custom cfg) (\<lambda>frag. let filters = add_filter filters frag in
      Inr (join '','' filters)))))))))))"

section \<open>Notions of the specification\<close>

text \<open>
  The definitions of this section are not code of the program: they are the words in which
  the specification states its properties.
\<close>

subsection \<open>The stage catalog\<close>

text \<open>
  The catalog order of the stages: equalize, color-channel-mix, sharpen-main,
  sharpen-extra, deblur, denoise, blur, grain, custom.
\<close>

definition catalog :: "(pyval \<Rightarrow> error + string option) list" where
  "catalog = [build_eq, build_color_channel, build_unsharp, build_extra_sharpen,
              build_deblur, build_denoise, build_blur, build_grain, build_custom]"

text \<open>
  The outputs of a list of calls made one after the other: the first exception ends the
  run, otherwise every call has returned.
\<close>

fun collect :: "(error + 'a) list \<Rightarrow> error + 'a list" where
  "collect [] = Inr []"
| "collect (Inl e # rs) = Inl e"
| "collect (Inr x # rs) = and_then (collect rs) (\<lambda>xs. Inr (x # xs))"

text \<open>
  The chain assembled from the outputs of the stages: what the assembler keeps of each
  output, in the order of the outputs, joined by the separator.
\<close>

definition assemble :: "string option list \<Rightarrow> string" where
  "assemble outs = join '','' (concat (map (add_filter []) outs))"

subsection \<open>Separators and surrounding whitespace\<close>

definition leading_comma :: "string \<Rightarrow> bool" where
  "leading_comma s = (s \<noteq> [] \<and> hd s = CHR '','')"

definition trailing_comma :: "string \<Rightarrow> bool" where
  "trailing_comma s = (s \<noteq> [] \<and> last s = CHR '','')"

fun doubled_comma :: "string \<Rightarrow> bool" where
  "doubled_comma (x # y # ys) = (x = CHR '','' \<and> y = CHR '','' \<or> doubled_comma (y # ys))"
| "doubled_comma [x] = False"
| "doubled_comma [] = False"

definition leading_space :: "string \<Rightarrow> bool" where
  "leading_space s = (s \<noteq> [] \<and> is_space (hd s))"

definition trailing_space :: "string \<Rightarrow> bool" where
  "trailing_space s = (s \<noteq> [] \<and> is_space (last s))"

subsection \<open>Shapes of a configuration\<close>

text \<open>
  The value a mapping supplies for a key, or the default when the key is absent.
\<close>

definition get_or :: "(string \<times> pyval) list \<Rightarrow> string \<Rightarrow> pyval \<Rightarrow> pyval" where
  "get_or kvs k dflt = (case map_of kvs k of None \<Rightarrow> dflt | Some v \<Rightarrow> v)"

text \<open>
  A flag of a section is false or absent: the section is absent, or it is a mapping in
  which the flag is absent or \<^verbatim>\<open>False\<close>.
\<close>

definition flag_off :: "(string \<times> pyval) list \<Rightarrow> string \<Rightarrow> string \<Rightarrow> bool" where
  "flag_off kvs sec flag =
     (case map_of kvs sec of
        None \<Rightarrow> True
      | Some (VDict c) \<Rightarrow> (case map_of c flag of None \<Rightarrow> True | Some v \<Rightarrow> v = VBool False)
      | Some _ \<Rightarrow> False)"

text \<open>
  The value of a colour channel: the one in the section \<^verbatim>\<open>color_channels\<close>, or 1.0
  when the section or the key is absent.
\<close>

definition channel :: "(string \<times> pyval) list \<Rightarrow> string \<Rightarrow> pyval" where
  "channel kvs k =
     (case map_of kvs ''color_channels'' of
        Some (VDict cc) \<Rightarrow> get_or cc k f1_0
      | _ \<Rightarrow> f1_0)"

text \<open>
  Every colour channel the configuration supplies equals 1.0.
\<close>

definition channels_identity :: "(string \<times> pyval) list \<Rightarrow> bool" where
  "channels_identity kvs =
     (case map_of kvs ''color_channels'' of
        None \<Rightarrow> True
      | Some (VDict cc) \<Rightarrow>
          list_all (\<lambda>k. case map_of cc k of None \<Rightarrow> True | Some v \<Rightarrow> eq_one v)
            [''red'', ''green'', ''blue'']
      | Some _ \<Rightarrow> False)"

text \<open>The list \<^verbatim>\<open>custom_filters\<close> is empty or absent.\<close>

definition custom_empty :: "(string \<times> pyval) list \<Rightarrow> bool" where
  "custom_empty kvs =
     (case map_of kvs ''custom_filters'' of None \<Rightarrow> True | Some v \<Rightarrow> v = VList [])"

text \<open>
  A stage is enabled with an empty parameter section: the section is a mapping whose flag
  has a true value, as \<^verbatim>\<open>if\<close> takes it, and that has none of the parameters of the
  stage. For the two sharpen stages the parameters are in a mapping of their own inside
  the section, which is absent or has none of them.
\<close>

definition enabled_bare :: "(string \<times> pyval) list \<Rightarrow> string \<Rightarrow> string \<Rightarrow> string list \<Rightarrow> bool" where
  "enabled_bare kvs sec flag params =
     (case map_of kvs sec of
        Some (VDict c) \<Rightarrow>
          truthy (get_or c flag (VBool False)) \<and> list_all (\<lambda>p. map_of c p = None) params
      | _ \<Rightarrow> False)"

definition sub_bare ::
  "(string \<times> pyval) list \<Rightarrow> string \<Rightarrow> string \<Rightarrow> string \<Rightarrow> string list \<Rightarrow> bool" where
  "sub_bare kvs sec flag sub params =
     (case map_of kvs sec of
        Some (VDict c) \<Rightarrow>
          truthy (get_or c flag (VBool False))
          \<and> (case map_of c sub of
                None \<Rightarrow> True
              | Some (VDict m) \<Rightarrow> list_all (\<lambda>p. map_of m p = None) params
              | Some _ \<Rightarrow> False)
      | _ \<Rightarrow> False)"

text \<open>
  The deblur section is the mapping \<open>c\<close>, enabled, with the method \<^verbatim>\<open>unsharp_multi\<close>.
\<close>

definition deblur_multi :: "(string \<times> pyval) list \<Rightarrow> (string \<times> pyval) list \<Rightarrow> bool" where
  "deblur_multi kvs c =
     (map_of kvs ''deblur'' = Some (VDict c)
      \<and> truthy (get_or c ''enabled'' (VBool False))
      \<and> map_of c ''method'' = Some (VStr ''unsharp_multi''))"

text \<open>The configuration without one of its sections.\<close>

definition without :: "string \<Rightarrow> (string \<times> pyval) list \<Rightarrow> (string \<times> pyval) list" where
  "without k kvs = filter (\<lambda>p. fst p \<noteq> k) kvs"

section \<open>Auxiliary facts\<close>

subsection \<open>Sequencing and the assembler\<close>

lemma and_then_Inr [simp]: "and_then (Inr x) f = f x"
  by (simp add: and_then_def)

lemma and_then_Inl [simp]: "and_then (Inl e) f = Inl e"
  by (simp add: and_then_def)

lemma add_filter_append: "add_filter fs out = fs @ add_filter [] out"
  by (simp add: add_filter_def Let_def split: option.splits)

lemma add_filter_None: "add_filter filters None = filters"
  by (simp add: add_filter_def)

lemma add_filter_dropped:
  assumes "add_filter [] out = []"
  shows "add_filter filters out = filters"
  using add_filter_append [of filters out] assms by simp

lemma collect_Inr: "collect rs = Inr xs \<Longrightarrow> rs = map Inr xs"
proof (induction rs arbitrary: xs)
  case Nil
  then show ?case by simp
next
  case (Cons r rs)
  then show ?case
    by (cases r; cases "collect rs") auto
qed

subsection \<open>Trimming\<close>

lemma rev_dropWhile_rev_last:
  assumes "rev (dropWhile P (rev s)) \<noteq> []"
  shows "\<not> P (last (rev (dropWhile P (rev s))))"
proof -
  define d where "d = dropWhile P (rev s)"
  from assms have ne: "d \<noteq> []" by (simp only: d_def rev_is_Nil_conv not_False_eq_True)
  then have "\<not> P (hd d)" unfolding d_def by (rule hd_dropWhile)
  moreover from ne have "last (rev d) = hd d" by (simp add: last_rev)
  ultimately show ?thesis unfolding d_def by simp
qed

lemma rev_dropWhile_rev_prefix: "\<exists>post. s = rev (dropWhile P (rev s)) @ post \<and> list_all P post"
proof -
  have "rev s = takeWhile P (rev s) @ dropWhile P (rev s)" by simp
  then have "s = rev (dropWhile P (rev s)) @ rev (takeWhile P (rev s))"
    by (metis rev_append rev_rev_ident)
  moreover have "list_all P (rev (takeWhile P (rev s)))"
    by (simp add: list_all_iff) (meson set_takeWhileD)
  ultimately show ?thesis by blast
qed

lemma rstrip_comma_no_trailing: "\<not> trailing_comma (rstrip_comma s)"
  using rev_dropWhile_rev_last [of "\<lambda>c. c = CHR '',''" s]
  unfolding trailing_comma_def rstrip_comma_def by blast

lemma rstrip_comma_decomp:
  "\<exists>n. s = rstrip_comma s @ replicate n CHR '',''"
proof -
  let ?P = "\<lambda>c. c = CHR '',''"
  have tw: "takeWhile ?P xs = replicate (length (takeWhile ?P xs)) CHR '',''" for xs
    by (induction xs) auto
  have "rev s = takeWhile ?P (rev s) @ dropWhile ?P (rev s)" by simp
  then have "s = rev (dropWhile ?P (rev s)) @ rev (takeWhile ?P (rev s))"
    by (metis rev_append rev_rev_ident)
  also have "rev (takeWhile ?P (rev s)) = replicate (length (takeWhile ?P (rev s))) CHR '',''"
    using tw [of "rev s"] by (metis rev_replicate)
  finally show ?thesis unfolding rstrip_comma_def by blast
qed

lemma strip_decomp:
  "\<exists>pre post. s = pre @ strip s @ post \<and> list_all is_space pre \<and> list_all is_space post"
proof -
  let ?u = "dropWhile is_space s"
  have 1: "s = takeWhile is_space s @ ?u" by simp
  have "rev ?u = takeWhile is_space (rev ?u) @ dropWhile is_space (rev ?u)" by simp
  then have 2: "?u = rev (dropWhile is_space (rev ?u)) @ rev (takeWhile is_space (rev ?u))"
    by (metis rev_append rev_rev_ident)
  have 3: "list_all is_space (takeWhile is_space xs)" for xs
    by (induction xs) auto
  have "s = takeWhile is_space s @ strip s @ rev (takeWhile is_space (rev ?u))"
    unfolding strip_def rstrip_def lstrip_def using 1 2 by metis
  moreover have "list_all is_space (rev (takeWhile is_space (rev ?u)))"
    using 3 [of "rev ?u"] by (simp add: list_all_iff)
  ultimately show ?thesis using 3 [of s] by blast
qed

lemma strip_no_leading_space: "\<not> leading_space (strip s)"
proof
  assume a: "leading_space (strip s)"
  define u where "u = dropWhile is_space s"
  define r where "r = rev (dropWhile is_space (rev u))"
  from a have "r \<noteq> [] \<and> is_space (hd r)"
    unfolding leading_space_def strip_def rstrip_def lstrip_def r_def u_def .
  then have ne: "r \<noteq> []" and sp: "is_space (hd r)" by blast+
  obtain post where "u = r @ post"
    using rev_dropWhile_rev_prefix [of u is_space] unfolding r_def by blast
  with ne have une: "u \<noteq> []" and hd: "hd u = hd r" by auto
  from une have "\<not> is_space (hd u)" unfolding u_def by (rule hd_dropWhile)
  with hd sp show False by simp
qed

lemma strip_no_trailing_space: "\<not> trailing_space (strip s)"
  using rev_dropWhile_rev_last [of is_space "dropWhile is_space s"]
  unfolding trailing_space_def strip_def rstrip_def lstrip_def by blast

lemma add_filter_Some:
  "add_filter filters (Some s) =
     (if rstrip_comma (strip s) = [] then filters else filters @ [rstrip_comma (strip s)])"
proof -
  have "strip [] = []" by (simp add: strip_def rstrip_def lstrip_def)
  then have "s = [] \<Longrightarrow> rstrip_comma (strip s) = []" by (simp add: rstrip_comma_def)
  then show ?thesis by (auto simp add: add_filter_def Let_def)
qed

lemma add_filter_kept:
  "t \<in> set (add_filter [] out) \<Longrightarrow>
     \<exists>s. out = Some s \<and> t = rstrip_comma (strip s) \<and> t \<noteq> []"
  by (cases out) (auto simp add: add_filter_Some add_filter_None split: if_splits)

lemma strip_plain:
  assumes "s \<noteq> []" "\<not> is_space (hd s)" "\<not> is_space (last s)"
  shows "strip s = s"
proof -
  from assms have 1: "dropWhile is_space s = s" by (cases s) simp_all
  from assms have "rev s \<noteq> []" "\<not> is_space (hd (rev s))" by (simp_all add: hd_rev)
  then have "dropWhile is_space (rev s) = rev s" by (cases "rev s") simp_all
  with 1 show ?thesis by (simp add: strip_def rstrip_def lstrip_def)
qed

lemma rstrip_comma_plain:
  assumes "s \<noteq> []" "last s \<noteq> CHR '',''"
  shows "rstrip_comma s = s"
proof -
  from assms have "rev s \<noteq> []" "hd (rev s) \<noteq> CHR '',''" by (simp_all add: hd_rev)
  then have "dropWhile (\<lambda>c. c = CHR '','') (rev s) = rev s" by (cases "rev s") simp_all
  then show ?thesis by (simp add: rstrip_comma_def)
qed

lemma add_filter_plain:
  assumes "s \<noteq> []" "\<not> is_space (hd s)" "\<not> is_space (last s)" "last s \<noteq> CHR '',''"
  shows "add_filter filters (Some s) = filters @ [s]"
  using assms by (simp add: add_filter_Some strip_plain rstrip_comma_plain)

subsection \<open>Separators in a joined list\<close>

lemma doubled_comma_append:
  "doubled_comma (a @ b) =
     (doubled_comma a \<or> doubled_comma b \<or> trailing_comma a \<and> leading_comma b)"
proof (induction a rule: doubled_comma.induct)
  case (1 x y ys)
  then show ?case by (auto simp add: trailing_comma_def)
next
  case (2 x)
  then show ?case by (cases b) (auto simp add: trailing_comma_def leading_comma_def)
next
  case 3
  then show ?case by (simp add: trailing_comma_def)
qed

lemma doubled_comma_Cons:
  "doubled_comma (c # r) = (c = CHR '','' \<and> leading_comma r \<or> doubled_comma r)"
  by (cases r) (auto simp add: leading_comma_def)

lemma join_nonempty:
  "fs \<noteq> [] \<Longrightarrow> \<forall>t\<in>set fs. t \<noteq> [] \<Longrightarrow> join sep fs \<noteq> [] \<and> hd (join sep fs) = hd (hd fs)"
  by (induction sep fs rule: join.induct) auto

lemma join_no_trailing:
  "\<forall>t\<in>set fs. t \<noteq> [] \<and> \<not> trailing_comma t \<Longrightarrow> \<not> trailing_comma (join '','' fs)"
proof (induction "'',''" fs rule: join.induct)
  case 1
  then show ?case by (simp add: trailing_comma_def)
next
  case (2 x)
  then show ?case by simp
next
  case (3 x y ys)
  then have ne: "join '','' (y # ys) \<noteq> []"
    using join_nonempty [of "y # ys" "'',''"] by simp
  have ih: "\<not> trailing_comma (join '','' (y # ys))"
    using 3 by simp
  show ?case using ih ne by (simp add: trailing_comma_def)
qed

lemma join_no_leading:
  "\<forall>t\<in>set fs. t \<noteq> [] \<and> \<not> leading_comma t \<Longrightarrow> \<not> leading_comma (join '','' fs)"
proof (cases fs)
  case Nil
  then show ?thesis by (simp add: leading_comma_def)
next
  case (Cons x xs)
  assume a: "\<forall>t\<in>set fs. t \<noteq> [] \<and> \<not> leading_comma t"
  then have "hd (join '','' fs) = hd x"
    using join_nonempty [of fs "'',''"] Cons by simp
  with a Cons show ?thesis by (auto simp add: leading_comma_def)
qed

lemma join_no_doubled:
  "\<forall>t\<in>set fs. t \<noteq> [] \<and> \<not> trailing_comma t \<and> \<not> leading_comma t \<and> \<not> doubled_comma t
   \<Longrightarrow> \<not> doubled_comma (join '','' fs)"
proof (induction "'',''" fs rule: join.induct)
  case 1
  then show ?case by simp
next
  case (2 x)
  then show ?case by simp
next
  case (3 x y ys)
  then have ih: "\<not> doubled_comma (join '','' (y # ys))" by simp
  have "\<not> leading_comma (join '','' (y # ys))"
    using 3(2) join_no_leading [of "y # ys"] by simp
  then have "\<not> doubled_comma (CHR '','' # join '','' (y # ys))"
    using ih by (simp add: doubled_comma_Cons)
  then show ?case
    using 3(2) by (simp add: doubled_comma_append [of x])
qed

subsection \<open>Lookup and formatting of the defaults\<close>

lemma dict_get_VDict: "dict_get (VDict kvs) k dflt = Inr (get_or kvs k dflt)"
  by (simp add: get_or_def)

lemma get_or_absent: "map_of kvs k = None \<Longrightarrow> get_or kvs k dflt = dflt"
  by (simp add: get_or_def)

lemma get_or_present: "map_of kvs k = Some v \<Longrightarrow> get_or kvs k dflt = v"
  by (simp add: get_or_def)

lemma map_of_without: "map_of (without k kvs) k' = (if k' = k then None else map_of kvs k')"
  by (induction kvs) (auto simp add: without_def)

lemma eq_one_f1_0: "eq_one f1_0"
  by (simp add: f1_0_def)

lemma py_str_consts:
  "py_str f0_0 = ''0.0''" "py_str f1_0 = ''1.0''" "py_str f0_6 = ''0.6''"
  "py_str f0_1 = ''0.1''" "py_str f0_4 = ''0.4''" "py_str f2_0 = ''2.0''"
  "py_str f1_5 = ''1.5''" "py_str f3_0 = ''3.0''"
  "int_str 2 = ''2''" "int_str 3 = ''3''" "int_str 4 = ''4''" "int_str 5 = ''5''"
  by (simp_all add: f0_0_def f1_0_def f0_6_def f0_1_def f0_4_def f2_0_def f1_5_def f3_0_def
      float_repr_digits_def int_str_def digits.simps digit_char_def Let_def)

lemma append_passes_replicate: "append_passes n frag chain = chain @ replicate n frag"
  by (induction n arbitrary: chain) (simp_all add: replicate_app_Cons_same)

subsection \<open>The builders on a disabled or absent section\<close>

lemma flag_off_cases:
  assumes "flag_off kvs sec flag"
  shows "map_of kvs sec = None
    \<or> (\<exists>c. map_of kvs sec = Some (VDict c)
            \<and> (map_of c flag = None \<or> map_of c flag = Some (VBool False)))"
proof (cases "map_of kvs sec")
  case None
  then show ?thesis by simp
next
  case (Some v)
  with assms obtain c where c: "v = VDict c"
    by (cases v) (simp_all add: flag_off_def)
  with assms Some show ?thesis
    by (cases "map_of c flag") (simp_all add: flag_off_def)
qed

lemma build_eq_off: "flag_off kvs ''eq'' ''enabled'' \<Longrightarrow> build_eq (VDict kvs) = Inr None"
  by (drule flag_off_cases) (auto simp add: build_eq_def)

lemma build_unsharp_off:
  "flag_off kvs ''sharpen'' ''enabled'' \<Longrightarrow> build_unsharp (VDict kvs) = Inr None"
  by (drule flag_off_cases) (auto simp add: build_unsharp_def)

lemma build_extra_sharpen_off:
  "flag_off kvs ''sharpen'' ''extra_enabled'' \<Longrightarrow> build_extra_sharpen (VDict kvs) = Inr None"
  by (drule flag_off_cases) (auto simp add: build_extra_sharpen_def)

lemma build_deblur_off:
  "flag_off kvs ''deblur'' ''enabled'' \<Longrightarrow> build_deblur (VDict kvs) = Inr None"
  by (drule flag_off_cases) (auto simp add: build_deblur_def)

lemma build_denoise_off:
  "flag_off kvs ''denoise'' ''enabled'' \<Longrightarrow> build_denoise (VDict kvs) = Inr None"
  by (drule flag_off_cases) (auto simp add: build_denoise_def)

lemma build_blur_off:
  "flag_off kvs ''blur'' ''enabled'' \<Longrightarrow> build_blur (VDict kvs) = Inr None"
  by (drule flag_off_cases) (auto simp add: build_blur_def)

lemma build_grain_off:
  "flag_off kvs ''grain'' ''enabled'' \<Longrightarrow> build_grain (VDict kvs) = Inr None"
  by (drule flag_off_cases) (auto simp add: build_grain_def)

lemma build_color_channel_identity:
  "channels_identity kvs \<Longrightarrow> build_color_channel (VDict kvs) = Inr None"
  by (auto simp add: channels_identity_def build_color_channel_def eq_one_f1_0
      split: option.splits pyval.splits)

lemma build_custom_empty: "custom_empty kvs \<Longrightarrow> build_custom (VDict kvs) = Inr None"
  by (auto simp add: custom_empty_def build_custom_def split: option.splits)

subsection \<open>The builders on an enabled section without parameters\<close>

lemma enabled_bare_cases:
  assumes "enabled_bare kvs sec flag params"
  obtains c where "map_of kvs sec = Some (VDict c)" "truthy (get_or c flag (VBool False))"
    "\<forall>p\<in>set params. map_of c p = None"
proof (cases "map_of kvs sec")
  case None
  with assms show ?thesis by (simp add: enabled_bare_def)
next
  case (Some v)
  with assms obtain c where "v = VDict c"
    by (cases v) (simp_all add: enabled_bare_def)
  with assms Some that show ?thesis
    by (simp add: enabled_bare_def list_all_iff)
qed

lemma sub_bare_cases:
  assumes "sub_bare kvs sec flag sub params"
  obtains c m where "map_of kvs sec = Some (VDict c)" "truthy (get_or c flag (VBool False))"
    "get_or c sub (VDict []) = VDict m" "\<forall>p\<in>set params. map_of m p = None"
proof (cases "map_of kvs sec")
  case None
  with assms show ?thesis by (simp add: sub_bare_def)
next
  case (Some v)
  with assms obtain c where c: "v = VDict c"
    by (cases v) (simp_all add: sub_bare_def)
  show ?thesis
  proof (cases "map_of c sub")
    case None
    with assms Some c that [of c "[]"] show ?thesis
      by (simp add: sub_bare_def get_or_def)
  next
    case (Some w)
    note w = this
    with assms \<open>map_of kvs sec = Some v\<close> c obtain m where "w = VDict m"
      by (cases w) (simp_all add: sub_bare_def)
    with assms \<open>map_of kvs sec = Some v\<close> c w that [of c m] show ?thesis
      by (simp add: sub_bare_def get_or_def list_all_iff)
  qed
qed

lemma build_eq_defaults:
  assumes "enabled_bare kvs ''eq'' ''enabled'' [''brightness'', ''contrast'', ''gamma'', ''saturation'']"
  shows "build_eq (VDict kvs) = Inr (Some ''eq=brightness=0.0:contrast=1.0:gamma=1.0:saturation=1.0'')"
  using assms
  by (elim enabled_bare_cases) (simp add: build_eq_def get_or_def py_str_consts)

lemma build_unsharp_defaults:
  assumes "sub_bare kvs ''sharpen'' ''enabled'' ''main''
     [''msize_x'', ''msize_y'', ''amount'', ''msize_x_chroma'', ''msize_y_chroma'', ''amount_chroma'']"
  shows "build_unsharp (VDict kvs) = Inr (Some ''unsharp=5:5:0.6:5:5:0.1'')"
  using assms
  by (elim sub_bare_cases)
     (simp add: build_unsharp_def dict_get_VDict py_str_consts del: dict_get.simps,
      simp add: get_or_def py_str_consts)

lemma build_extra_sharpen_defaults:
  assumes "sub_bare kvs ''sharpen'' ''extra_enabled'' ''extra'' [''msize'', ''amount'']"
  shows "build_extra_sharpen (VDict kvs) = Inr (Some ''unsharp=3:3:0.4'')"
  using assms
  by (elim sub_bare_cases)
     (simp add: build_extra_sharpen_def dict_get_VDict py_str_consts del: dict_get.simps,
      simp add: get_or_def py_str_consts)

lemma build_deblur_defaults:
  assumes "enabled_bare kvs ''deblur'' ''enabled'' [''method'', ''kernel'']"
  shows "build_deblur (VDict kvs)
           = Inr (Some (''convolution='' @ [CHR 0x27] @ ''-1 -1 -1 -1 9 -1 -1 -1 -1'' @ [CHR 0x27]))"
  using assms
  by (elim enabled_bare_cases) (simp add: build_deblur_def get_or_def)

lemma build_denoise_defaults:
  assumes "enabled_bare kvs ''denoise'' ''enabled'' [''luma'', ''chroma'', ''time'', ''chroma_time'']"
  shows "build_denoise (VDict kvs) = Inr (Some ''hqdn3d=2.0:1.5:3.0:0.0'')"
  using assms
  by (elim enabled_bare_cases) (simp add: build_denoise_def get_or_def py_str_consts)

lemma build_blur_defaults:
  assumes "enabled_bare kvs ''blur'' ''enabled'' [''radius'']"
  shows "build_blur (VDict kvs) = Inr (Some ''boxblur=2'')"
  using assms
  by (elim enabled_bare_cases) (simp add: build_blur_def get_or_def py_str_consts)

lemma build_grain_defaults:
  assumes "enabled_bare kvs ''grain'' ''enabled'' [''strength'', ''frequency'']"
  shows "build_grain (VDict kvs) = Inr (Some ''noise=alls=4:allf=p'')"
  using assms
  by (elim enabled_bare_cases) (simp add: build_grain_def get_or_def py_str_consts)

lemma build_deblur_multi:
  assumes "deblur_multi kvs c" and "get_or c ''passes'' (VInt 2) = VInt n"
  shows "build_deblur (VDict kvs) =
           Inr (Some (join '','' (replicate (nat n)
             (''unsharp='' @ py_str (get_or c ''msize'' (VInt 5))
              @ '':'' @ py_str (get_or c ''msize'' (VInt 5))
              @ '':'' @ py_str (get_or c ''amount'' f1_0)))))"
  using assms
  by (simp add: deblur_multi_def build_deblur_def dict_get_VDict get_or_present
      append_passes_replicate del: dict_get.simps)

subsection \<open>The chain depends on the sections only\<close>

lemma main_filter_chain_catalog:
  "main_filter_chain cfg = and_then (collect (map (\<lambda>b. b cfg) catalog)) (\<lambda>outs. Inr (assemble outs))"
proof -
  define st where "st = add_filter []"
  have step: "\<And>fs out. add_filter fs out = fs @ st out"
    unfolding st_def by (rule add_filter_append)
  show ?thesis
    unfolding main_filter_chain_def catalog_def assemble_def Let_def st_def [symmetric] step
    by (cases "build_eq cfg"; cases "build_color_channel cfg"; cases "build_unsharp cfg";
        cases "build_extra_sharpen cfg"; cases "build_deblur cfg"; cases "build_denoise cfg";
        cases "build_blur cfg"; cases "build_grain cfg"; cases "build_custom cfg") simp_all
qed

lemma builders_map_of:
  assumes "map_of kvs' = map_of kvs"
  shows "build_eq (VDict kvs') = build_eq (VDict kvs)"
    and "build_color_channel (VDict kvs') = build_color_channel (VDict kvs)"
    and "build_unsharp (VDict kvs') = build_unsharp (VDict kvs)"
    and "build_extra_sharpen (VDict kvs') = build_extra_sharpen (VDict kvs)"
    and "build_deblur (VDict kvs') = build_deblur (VDict kvs)"
    and "build_denoise (VDict kvs') = build_denoise (VDict kvs)"
    and "build_blur (VDict kvs') = build_blur (VDict kvs)"
    and "build_grain (VDict kvs') = build_grain (VDict kvs)"
    and "build_custom (VDict kvs') = build_custom (VDict kvs)"
  using assms
  by (simp_all add: build_eq_def build_color_channel_def build_unsharp_def
      build_extra_sharpen_def build_deblur_def build_denoise_def build_blur_def
      build_grain_def build_custom_def)

lemma main_filter_chain_map_of:
  assumes "map_of kvs' = map_of kvs"
  shows "main_filter_chain (VDict kvs') = main_filter_chain (VDict kvs)"
  unfolding main_filter_chain_def builders_map_of [OF assms] ..

lemma builders_without:
  "k \<noteq> ''eq'' \<Longrightarrow> build_eq (VDict (without k kvs)) = build_eq (VDict kvs)"
  "k \<noteq> ''color_channels'' \<Longrightarrow>
     build_color_channel (VDict (without k kvs)) = build_color_channel (VDict kvs)"
  "k \<noteq> ''sharpen'' \<Longrightarrow> build_unsharp (VDict (without k kvs)) = build_unsharp (VDict kvs)"
  "k \<noteq> ''sharpen'' \<Longrightarrow>
     build_extra_sharpen (VDict (without k kvs)) = build_extra_sharpen (VDict kvs)"
  "k \<noteq> ''deblur'' \<Longrightarrow> build_deblur (VDict (without k kvs)) = build_deblur (VDict kvs)"
  "k \<noteq> ''denoise'' \<Longrightarrow> build_denoise (VDict (without k kvs)) = build_denoise (VDict kvs)"
  "k \<noteq> ''blur'' \<Longrightarrow> build_blur (VDict (without k kvs)) = build_blur (VDict kvs)"
  "k \<noteq> ''grain'' \<Longrightarrow> build_grain (VDict (without k kvs)) = build_grain (VDict kvs)"
  "k \<noteq> ''custom_filters'' \<Longrightarrow> build_custom (VDict (without k kvs)) = build_custom (VDict kvs)"
  by (simp_all add: build_eq_def build_color_channel_def build_unsharp_def
      build_extra_sharpen_def build_deblur_def build_denoise_def build_blur_def
      build_grain_def build_custom_def map_of_without)

lemma build_deblur_without: "build_deblur (VDict (without ''deblur'' kvs)) = Inr None"
  by (simp add: build_deblur_def map_of_without)

lemma build_color_channel_without:
  "build_color_channel (VDict (without ''color_channels'' kvs)) = Inr None"
  by (simp add: build_color_channel_def map_of_without eq_one_f1_0)

lemma main_without_deblur:
  assumes "build_deblur (VDict kvs) = Inr out" "add_filter [] out = []"
  shows "main_filter_chain (VDict kvs) = main_filter_chain (VDict (without ''deblur'' kvs))"
  unfolding main_filter_chain_def
  by (simp add: builders_without build_deblur_without assms(1) add_filter_dropped [OF assms(2)]
      add_filter_None)

lemma main_without_color_channels:
  assumes "build_color_channel (VDict kvs) = Inr out" "add_filter [] out = []"
  shows "main_filter_chain (VDict kvs)
           = main_filter_chain (VDict (without ''color_channels'' kvs))"
  unfolding main_filter_chain_def
  by (simp add: builders_without build_color_channel_without assms(1)
      add_filter_dropped [OF assms(2)] add_filter_None)

section \<open>Properties of the chain construction\<close>

subsection \<open>Stage order\<close>

text \<open>
  C1. For every configuration the chain is made of the stage expressions the assembler
  keeps, joined in the catalog order equalize, color-channel-mix, sharpen-main,
  sharpen-extra, deblur, denoise, blur, grain, custom, whatever the content of the
  configuration; when a builder raises, the first one in that order ends the run. The
  order in which the keys of the configuration appear changes nothing.
\<close>

theorem stage_order:
  "main_filter_chain cfg =
     and_then (collect (map (\<lambda>b. b cfg) catalog)) (\<lambda>outs. Inr (assemble outs))
   \<and> (distinct (map fst kvs) \<and> distinct (map fst kvs') \<and> set kvs' = set kvs
        \<longrightarrow> main_filter_chain (VDict kvs') = main_filter_chain (VDict kvs))"
proof (intro conjI impI)
  show "main_filter_chain cfg =
     and_then (collect (map (\<lambda>b. b cfg) catalog)) (\<lambda>outs. Inr (assemble outs))"
    by (rule main_filter_chain_catalog)
next
  assume a: "distinct (map fst kvs) \<and> distinct (map fst kvs') \<and> set kvs' = set kvs"
  then have "map_of kvs' = map_of kvs"
    by (simp add: map_of_inject_set)
  then show "main_filter_chain (VDict kvs') = main_filter_chain (VDict kvs)"
    by (rule main_filter_chain_map_of)
qed

theorem stage_order_witness:
  "main_filter_chain (VDict [(''blur'', VDict [(''enabled'', VBool True)]),
                             (''eq'', VDict [(''enabled'', VBool True)])])
     = main_filter_chain (VDict [(''eq'', VDict [(''enabled'', VBool True)]),
                                 (''blur'', VDict [(''enabled'', VBool True)])])
   \<and> main_filter_chain (VDict [(''blur'', VDict [(''enabled'', VBool True)]),
                               (''eq'', VDict [(''enabled'', VBool True)])])
     = Inr ''eq=brightness=0.0:contrast=1.0:gamma=1.0:saturation=1.0,boxblur=2''"
proof -
  have "main_filter_chain (VDict [(''blur'', VDict [(''enabled'', VBool True)]),
                             (''eq'', VDict [(''enabled'', VBool True)])])
     = main_filter_chain (VDict [(''eq'', VDict [(''enabled'', VBool True)]),
                                 (''blur'', VDict [(''enabled'', VBool True)])])"
    using stage_order [of VNone "[(''eq'', VDict [(''enabled'', VBool True)]),
                                 (''blur'', VDict [(''enabled'', VBool True)])]"
        "[(''blur'', VDict [(''enabled'', VBool True)]),
                             (''eq'', VDict [(''enabled'', VBool True)])]"]
    by (simp add: insert_commute)
  moreover have "main_filter_chain (VDict [(''blur'', VDict [(''enabled'', VBool True)]),
                               (''eq'', VDict [(''enabled'', VBool True)])])
     = Inr ''eq=brightness=0.0:contrast=1.0:gamma=1.0:saturation=1.0,boxblur=2''"
    by code_simp
  ultimately show ?thesis by simp
qed

subsection \<open>Nothing enabled\<close>

text \<open>
  C2. When the flags \<^verbatim>\<open>eq.enabled\<close>, \<^verbatim>\<open>sharpen.enabled\<close>, \<^verbatim>\<open>sharpen.extra_enabled\<close>,
  \<^verbatim>\<open>deblur.enabled\<close>, \<^verbatim>\<open>denoise.enabled\<close>, \<^verbatim>\<open>blur.enabled\<close> and \<^verbatim>\<open>grain.enabled\<close> are
  false or absent, every colour channel equals 1.0 and \<^verbatim>\<open>custom_filters\<close> is empty or
  absent, the chain is the empty string.
\<close>

theorem all_disabled_empty_chain:
  assumes "flag_off kvs ''eq'' ''enabled''"
    and "flag_off kvs ''sharpen'' ''enabled''"
    and "flag_off kvs ''sharpen'' ''extra_enabled''"
    and "flag_off kvs ''deblur'' ''enabled''"
    and "flag_off kvs ''denoise'' ''enabled''"
    and "flag_off kvs ''blur'' ''enabled''"
    and "flag_off kvs ''grain'' ''enabled''"
    and "channels_identity kvs"
    and "custom_empty kvs"
  shows "main_filter_chain (VDict kvs) = Inr []"
  using assms
  by (simp add: main_filter_chain_def add_filter_None build_eq_off build_unsharp_off
      build_extra_sharpen_off build_deblur_off build_denoise_off build_blur_off build_grain_off
      build_color_channel_identity build_custom_empty)

theorem all_disabled_empty_chain_witness:
  "main_filter_chain (VDict
     [(''eq'', VDict [(''enabled'', VBool False), (''contrast'', VFloat (Finite False 12 (-1)))]),
      (''sharpen'', VDict [(''extra_enabled'', VBool False)]),
      (''color_channels'', VDict [(''red'', f1_0), (''blue'', f1_0)]),
      (''custom_filters'', VList [])]) = Inr []"
  by (rule all_disabled_empty_chain)
     (simp_all add: flag_off_def channels_identity_def custom_empty_def eq_one_f1_0)

subsection \<open>Colour channels\<close>

text \<open>
  C3. On a configuration whose section \<^verbatim>\<open>color_channels\<close> is absent or a mapping, the
  color-channel-mix builder yields no stage exactly when red, green and blue all equal
  1.0, and otherwise the expression \<^verbatim>\<open>eq=red_mul=R:green_mul=G:blue_mul=B\<close> with the
  values of the three channels printed for R, G and B; with the section absent it yields
  no stage.
\<close>

theorem color_channel_stage:
  assumes "case map_of kvs ''color_channels'' of None \<Rightarrow> True | Some (VDict cc) \<Rightarrow> True | Some _ \<Rightarrow> False"
  shows "build_color_channel (VDict kvs) =
           Inr (if eq_one (channel kvs ''red'') \<and> eq_one (channel kvs ''green'')
                   \<and> eq_one (channel kvs ''blue'')
                then None
                else Some (''eq=red_mul='' @ py_str (channel kvs ''red'')
                           @ '':green_mul='' @ py_str (channel kvs ''green'')
                           @ '':blue_mul='' @ py_str (channel kvs ''blue'')))
         \<and> (map_of kvs ''color_channels'' = None \<longrightarrow> build_color_channel (VDict kvs) = Inr None)"
  using assms
  by (auto simp add: build_color_channel_def channel_def get_or_def eq_one_f1_0
      split: option.splits pyval.splits)

theorem color_channel_stage_witness:
  "build_color_channel (VDict [(''color_channels'',
       VDict [(''red'', VFloat (Finite False 15 (-1))), (''green'', VInt 1)])])
     = Inr (Some ''eq=red_mul=1.5:green_mul=1:blue_mul=1.0'')
   \<and> build_color_channel (VDict []) = Inr None"
  using color_channel_stage [of "[(''color_channels'',
       VDict [(''red'', VFloat (Finite False 15 (-1))), (''green'', VInt 1)])]"]
    color_channel_stage [of "[]"]
  by (simp add: channel_def get_or_def py_str_consts eq_one_f1_0 float_repr_digits_def
      digits.simps digit_char_def int_str_def Let_def)

subsection \<open>Separators\<close>

text \<open>
  C4, as amended. The chain never ends with a separator. It has no leading separator
  and no two adjacent separators whenever no stage expression, as the assembler has
  trimmed it, starts with a comma or has two adjacent commas itself.
\<close>

theorem no_stray_separator:
  assumes "main_filter_chain cfg = Inr chain"
  shows "\<not> trailing_comma chain
    \<and> ((\<forall>b\<in>set catalog. \<forall>s. b cfg = Inr (Some s) \<longrightarrow>
           \<not> leading_comma (rstrip_comma (strip s)) \<and> \<not> doubled_comma (rstrip_comma (strip s)))
        \<longrightarrow> \<not> leading_comma chain \<and> \<not> doubled_comma chain)"
proof -
  from assms obtain outs where c: "collect (map (\<lambda>b. b cfg) catalog) = Inr outs"
    and chain: "chain = assemble outs"
    unfolding main_filter_chain_catalog
    by (cases "collect (map (\<lambda>b. b cfg) catalog)") auto
  define fs where "fs = concat (map (add_filter []) outs)"
  have outs: "map (\<lambda>b. b cfg) catalog = map Inr outs"
    using c by (rule collect_Inr)
  have kept: "\<exists>b\<in>set catalog. \<exists>s. b cfg = Inr (Some s) \<and> t = rstrip_comma (strip s) \<and> t \<noteq> []"
    if "t \<in> set fs" for t
  proof -
    from that obtain out where o: "out \<in> set outs" and t: "t \<in> set (add_filter [] out)"
      unfolding fs_def by auto
    from t obtain s where s: "out = Some s" "t = rstrip_comma (strip s)" "t \<noteq> []"
      using add_filter_kept by blast
    from o have "Inr out \<in> set (map (\<lambda>b. b cfg) catalog)"
      unfolding outs by simp
    then obtain b where "b \<in> set catalog" "b cfg = Inr out" by auto
    with s show ?thesis by blast
  qed
  have basic: "\<forall>t\<in>set fs. t \<noteq> [] \<and> \<not> trailing_comma t"
    using kept rstrip_comma_no_trailing by blast
  have 1: "\<not> trailing_comma chain"
    unfolding chain assemble_def fs_def [symmetric] using basic by (rule join_no_trailing)
  have 2: "\<not> leading_comma chain \<and> \<not> doubled_comma chain"
    if h: "\<forall>b\<in>set catalog. \<forall>s. b cfg = Inr (Some s) \<longrightarrow>
           \<not> leading_comma (rstrip_comma (strip s)) \<and> \<not> doubled_comma (rstrip_comma (strip s))"
  proof -
    have all: "\<forall>t\<in>set fs. t \<noteq> [] \<and> \<not> trailing_comma t \<and> \<not> leading_comma t \<and> \<not> doubled_comma t"
      using kept h rstrip_comma_no_trailing by blast
    then have "\<forall>t\<in>set fs. t \<noteq> [] \<and> \<not> leading_comma t" by blast
    then have "\<not> leading_comma (join '','' fs)" by (rule join_no_leading)
    moreover from all have "\<not> doubled_comma (join '','' fs)" by (rule join_no_doubled)
    ultimately show ?thesis unfolding chain assemble_def fs_def by simp
  qed
  from 1 2 show ?thesis by blast
qed

theorem no_stray_separator_witness:
  "\<not> trailing_comma ''boxblur=2,crop=100:100:0:0,hflip''
   \<and> \<not> leading_comma ''boxblur=2,crop=100:100:0:0,hflip''
   \<and> \<not> doubled_comma ''boxblur=2,crop=100:100:0:0,hflip''"
proof -
  define cfg where "cfg = VDict [(''blur'', VDict [(''enabled'', VBool True)]),
     (''custom_filters'', VList [VStr ''crop=100:100:0:0'', VStr ''hflip, ''])]"
  have m: "main_filter_chain cfg = Inr ''boxblur=2,crop=100:100:0:0,hflip''"
    unfolding cfg_def by code_simp
  have b: "build_eq cfg = Inr None" "build_color_channel cfg = Inr None"
    "build_unsharp cfg = Inr None" "build_extra_sharpen cfg = Inr None"
    "build_deblur cfg = Inr None" "build_denoise cfg = Inr None"
    "build_blur cfg = Inr (Some ''boxblur=2'')" "build_grain cfg = Inr None"
    "build_custom cfg = Inr (Some ''crop=100:100:0:0,hflip, '')"
    unfolding cfg_def by code_simp+
  have t: "rstrip_comma (strip ''boxblur=2'') = ''boxblur=2''"
    "rstrip_comma (strip ''crop=100:100:0:0,hflip, '') = ''crop=100:100:0:0,hflip''"
    by code_simp+
  have l: "\<not> leading_comma ''boxblur=2''" "\<not> doubled_comma ''boxblur=2''"
    "\<not> leading_comma ''crop=100:100:0:0,hflip''" "\<not> doubled_comma ''crop=100:100:0:0,hflip''"
    by code_simp+
  show ?thesis
    using no_stray_separator [OF m] by (simp add: catalog_def b t l)
qed

text \<open>
  C4, as stated, fails: the entries of \<^verbatim>\<open>custom_filters\<close> are joined as they are, so
  with the entries \<^verbatim>\<open>""\<close>, \<^verbatim>\<open>"hflip"\<close>, \<^verbatim>\<open>""\<close>, \<^verbatim>\<open>"vflip"\<close> the chain starts with a
  separator and has two adjacent ones.
\<close>

theorem stray_separator_counterexample:
  "main_filter_chain (VDict [(''custom_filters'', VList [VStr [], VStr ''hflip'', VStr [], VStr ''vflip''])])
     = Inr '',hflip,,vflip''
   \<and> leading_comma '',hflip,,vflip'' \<and> doubled_comma '',hflip,,vflip''"
  by code_simp

subsection \<open>Trimming\<close>

text \<open>
  C5. The surrounding whitespace and the trailing commas of a stage expression are to be
  removed before it is included in the chain. The assembler removes the surrounding
  whitespace first and the trailing commas after that, once each, so that whitespace in
  front of a trailing comma stays: of the expression \<^verbatim>\<open>hflip , \<close> it keeps
  \<^verbatim>\<open>hflip \<close>, which ends with whitespace, and that is the chain of the configuration
  whose \<^verbatim>\<open>custom_filters\<close> has this one entry.
\<close>

theorem trimming_leaves_whitespace:
  "add_filter [''boxblur=2''] (Some ''hflip , '') = [''boxblur=2'', ''hflip '']
   \<and> trailing_space ''hflip ''
   \<and> main_filter_chain (VDict [(''custom_filters'', VList [VStr ''hflip , ''])])
       = Inr ''hflip ''"
  by code_simp

subsection \<open>Unknown deblur method\<close>

text \<open>
  C6. With \<^verbatim>\<open>deblur.enabled\<close> true and \<^verbatim>\<open>deblur.method\<close> a string other than
  \<^verbatim>\<open>convolution\<close> and \<^verbatim>\<open>unsharp_multi\<close>, the deblur builder returns \<^verbatim>\<open>None\<close> without
  raising, and the program behaves as on the configuration without the deblur section.
\<close>

theorem unknown_deblur_method:
  assumes "map_of kvs ''deblur'' = Some (VDict c)"
    and "truthy (get_or c ''enabled'' (VBool False))"
    and "map_of c ''method'' = Some (VStr m)"
    and "m \<noteq> ''convolution''" and "m \<noteq> ''unsharp_multi''"
  shows "build_deblur (VDict kvs) = Inr None
    \<and> main_filter_chain (VDict kvs) = main_filter_chain (VDict (without ''deblur'' kvs))"
proof -
  have 1: "build_deblur (VDict kvs) = Inr None"
    using assms by (simp add: build_deblur_def get_or_def)
  then have "main_filter_chain (VDict kvs) = main_filter_chain (VDict (without ''deblur'' kvs))"
    by (rule main_without_deblur) (simp add: add_filter_None)
  with 1 show ?thesis by simp
qed

theorem unknown_deblur_method_witness:
  "build_deblur (VDict [(''deblur'', VDict [(''enabled'', VBool True), (''method'', VStr ''unknown'')]),
                        (''blur'', VDict [(''enabled'', VBool True)])]) = Inr None
   \<and> main_filter_chain (VDict [(''deblur'', VDict [(''enabled'', VBool True), (''method'', VStr ''unknown'')]),
                               (''blur'', VDict [(''enabled'', VBool True)])])
      = main_filter_chain (VDict [(''blur'', VDict [(''enabled'', VBool True)])])"
  using unknown_deblur_method [of
      "[(''deblur'', VDict [(''enabled'', VBool True), (''method'', VStr ''unknown'')]),
        (''blur'', VDict [(''enabled'', VBool True)])]"
      "[(''enabled'', VBool True), (''method'', VStr ''unknown'')]" "''unknown''"]
  by (simp add: get_or_def without_def)

subsection \<open>Defaults\<close>

text \<open>
  C7. Each stage that is enabled with an empty parameter section yields its expression
  with the documented defaults; a configuration that enables equalize this way and
  nothing else gives the chain
  \<^verbatim>\<open>eq=brightness=0.0:contrast=1.0:gamma=1.0:saturation=1.0\<close>.
\<close>

theorem defaults_used:
  "(enabled_bare kvs ''eq'' ''enabled'' [''brightness'', ''contrast'', ''gamma'', ''saturation'']
      \<longrightarrow> build_eq (VDict kvs)
            = Inr (Some ''eq=brightness=0.0:contrast=1.0:gamma=1.0:saturation=1.0''))
   \<and> (sub_bare kvs ''sharpen'' ''enabled'' ''main''
         [''msize_x'', ''msize_y'', ''amount'', ''msize_x_chroma'', ''msize_y_chroma'',
          ''amount_chroma'']
      \<longrightarrow> build_unsharp (VDict kvs) = Inr (Some ''unsharp=5:5:0.6:5:5:0.1''))
   \<and> (sub_bare kvs ''sharpen'' ''extra_enabled'' ''extra'' [''msize'', ''amount'']
      \<longrightarrow> build_extra_sharpen (VDict kvs) = Inr (Some ''unsharp=3:3:0.4''))
   \<and> (enabled_bare kvs ''deblur'' ''enabled'' [''method'', ''kernel'']
      \<longrightarrow> build_deblur (VDict kvs)
            = Inr (Some (''convolution='' @ [CHR 0x27] @ ''-1 -1 -1 -1 9 -1 -1 -1 -1''
                         @ [CHR 0x27])))
   \<and> (enabled_bare kvs ''denoise'' ''enabled'' [''luma'', ''chroma'', ''time'', ''chroma_time'']
      \<longrightarrow> build_denoise (VDict kvs) = Inr (Some ''hqdn3d=2.0:1.5:3.0:0.0''))
   \<and> (enabled_bare kvs ''blur'' ''enabled'' [''radius'']
      \<longrightarrow> build_blur (VDict kvs) = Inr (Some ''boxblur=2''))
   \<and> (enabled_bare kvs ''grain'' ''enabled'' [''strength'', ''frequency'']
      \<longrightarrow> build_grain (VDict kvs) = Inr (Some ''noise=alls=4:allf=p''))
   \<and> (enabled_bare kvs ''eq'' ''enabled'' [''brightness'', ''contrast'', ''gamma'', ''saturation'']
       \<and> flag_off kvs ''sharpen'' ''enabled'' \<and> flag_off kvs ''sharpen'' ''extra_enabled''
       \<and> flag_off kvs ''deblur'' ''enabled'' \<and> flag_off kvs ''denoise'' ''enabled''
       \<and> flag_off kvs ''blur'' ''enabled'' \<and> flag_off kvs ''grain'' ''enabled''
       \<and> channels_identity kvs \<and> custom_empty kvs
      \<longrightarrow> main_filter_chain (VDict kvs)
            = Inr ''eq=brightness=0.0:contrast=1.0:gamma=1.0:saturation=1.0'')"
proof (intro conjI impI)
  assume "enabled_bare kvs ''eq'' ''enabled'' [''brightness'', ''contrast'', ''gamma'', ''saturation'']
       \<and> flag_off kvs ''sharpen'' ''enabled'' \<and> flag_off kvs ''sharpen'' ''extra_enabled''
       \<and> flag_off kvs ''deblur'' ''enabled'' \<and> flag_off kvs ''denoise'' ''enabled''
       \<and> flag_off kvs ''blur'' ''enabled'' \<and> flag_off kvs ''grain'' ''enabled''
       \<and> channels_identity kvs \<and> custom_empty kvs"
  then show "main_filter_chain (VDict kvs)
            = Inr ''eq=brightness=0.0:contrast=1.0:gamma=1.0:saturation=1.0''"
    by (simp add: main_filter_chain_def add_filter_None build_eq_defaults build_unsharp_off
      build_extra_sharpen_off build_deblur_off build_denoise_off build_blur_off build_grain_off
      build_color_channel_identity build_custom_empty add_filter_plain is_space_def)
qed (fact build_eq_defaults build_unsharp_defaults build_extra_sharpen_defaults
       build_deblur_defaults build_denoise_defaults build_blur_defaults build_grain_defaults)+

theorem defaults_used_witness:
  "build_eq (VDict [(''eq'', VDict [(''enabled'', VBool True)])])
     = Inr (Some ''eq=brightness=0.0:contrast=1.0:gamma=1.0:saturation=1.0'')
   \<and> main_filter_chain (VDict [(''eq'', VDict [(''enabled'', VBool True)])])
     = Inr ''eq=brightness=0.0:contrast=1.0:gamma=1.0:saturation=1.0''
   \<and> build_unsharp (VDict [(''sharpen'', VDict [(''enabled'', VBool True), (''extra_enabled'', VBool True), (''main'', VDict [])]),
        (''deblur'', VDict [(''enabled'', VBool True)]), (''denoise'', VDict [(''enabled'', VBool True)]),
        (''blur'', VDict [(''enabled'', VBool True)]), (''grain'', VDict [(''enabled'', VBool True)])])
     = Inr (Some ''unsharp=5:5:0.6:5:5:0.1'')
   \<and> build_extra_sharpen (VDict [(''sharpen'', VDict [(''enabled'', VBool True), (''extra_enabled'', VBool True), (''main'', VDict [])]),
        (''deblur'', VDict [(''enabled'', VBool True)]), (''denoise'', VDict [(''enabled'', VBool True)]),
        (''blur'', VDict [(''enabled'', VBool True)]), (''grain'', VDict [(''enabled'', VBool True)])])
     = Inr (Some ''unsharp=3:3:0.4'')
   \<and> build_deblur (VDict [(''sharpen'', VDict [(''enabled'', VBool True), (''extra_enabled'', VBool True), (''main'', VDict [])]),
        (''deblur'', VDict [(''enabled'', VBool True)]), (''denoise'', VDict [(''enabled'', VBool True)]),
        (''blur'', VDict [(''enabled'', VBool True)]), (''grain'', VDict [(''enabled'', VBool True)])])
     = Inr (Some (''convolution='' @ [CHR 0x27] @ ''-1 -1 -1 -1 9 -1 -1 -1 -1'' @ [CHR 0x27]))
   \<and> build_denoise (VDict [(''sharpen'', VDict [(''enabled'', VBool True), (''extra_enabled'', VBool True), (''main'', VDict [])]),
        (''deblur'', VDict [(''enabled'', VBool True)]), (''denoise'', VDict [(''enabled'', VBool True)]),
        (''blur'', VDict [(''enabled'', VBool True)]), (''grain'', VDict [(''enabled'', VBool True)])])
     = Inr (Some ''hqdn3d=2.0:1.5:3.0:0.0'')
   \<and> build_blur (VDict [(''sharpen'', VDict [(''enabled'', VBool True), (''extra_enabled'', VBool True), (''main'', VDict [])]),
        (''deblur'', VDict [(''enabled'', VBool True)]), (''denoise'', VDict [(''enabled'', VBool True)]),
        (''blur'', VDict [(''enabled'', VBool True)]), (''grain'', VDict [(''enabled'', VBool True)])])
     = Inr (Some ''boxblur=2'')
   \<and> build_grain (VDict [(''sharpen'', VDict [(''enabled'', VBool True), (''extra_enabled'', VBool True), (''main'', VDict [])]),
        (''deblur'', VDict [(''enabled'', VBool True)]), (''denoise'', VDict [(''enabled'', VBool True)]),
        (''blur'', VDict [(''enabled'', VBool True)]), (''grain'', VDict [(''enabled'', VBool True)])])
     = Inr (Some ''noise=alls=4:allf=p'')"
  using defaults_used [of "[(''eq'', VDict [(''enabled'', VBool True)])]"]
    defaults_used [of "[(''sharpen'', VDict [(''enabled'', VBool True), (''extra_enabled'', VBool True), (''main'', VDict [])]),
        (''deblur'', VDict [(''enabled'', VBool True)]), (''denoise'', VDict [(''enabled'', VBool True)]),
        (''blur'', VDict [(''enabled'', VBool True)]), (''grain'', VDict [(''enabled'', VBool True)])]"]
  by (simp add: enabled_bare_def sub_bare_def flag_off_def channels_identity_def custom_empty_def
      get_or_def)

subsection \<open>Multi-pass deblur\<close>

text \<open>
  C8. With deblur enabled and the method \<^verbatim>\<open>unsharp_multi\<close>, the deblur stage is the
  expression \<^verbatim>\<open>unsharp=M:M:A\<close> repeated \<^verbatim>\<open>passes\<close> times (2 by default) and joined by
  commas, with \<^verbatim>\<open>msize\<close> (5 by default) for both M and \<^verbatim>\<open>amount\<close> (1.0 by default) for
  A; with 3 passes, amount 1.0, msize 5 and nothing else enabled the chain is
  \<^verbatim>\<open>unsharp=5:5:1.0,unsharp=5:5:1.0,unsharp=5:5:1.0\<close>.
\<close>

theorem unsharp_multi_passes:
  assumes "deblur_multi kvs c" and "get_or c ''passes'' (VInt 2) = VInt n"
  shows "build_deblur (VDict kvs) =
           Inr (Some (join '','' (replicate (nat n)
             (''unsharp='' @ py_str (get_or c ''msize'' (VInt 5))
              @ '':'' @ py_str (get_or c ''msize'' (VInt 5))
              @ '':'' @ py_str (get_or c ''amount'' f1_0)))))
    \<and> (n = 3 \<and> get_or c ''msize'' (VInt 5) = VInt 5 \<and> get_or c ''amount'' f1_0 = f1_0
        \<and> flag_off kvs ''eq'' ''enabled''
        \<and> flag_off kvs ''sharpen'' ''enabled'' \<and> flag_off kvs ''sharpen'' ''extra_enabled''
        \<and> flag_off kvs ''denoise'' ''enabled''
        \<and> flag_off kvs ''blur'' ''enabled'' \<and> flag_off kvs ''grain'' ''enabled''
        \<and> channels_identity kvs \<and> custom_empty kvs
       \<longrightarrow> main_filter_chain (VDict kvs)
             = Inr ''unsharp=5:5:1.0,unsharp=5:5:1.0,unsharp=5:5:1.0'')"
proof (intro conjI impI)
  show "build_deblur (VDict kvs) =
           Inr (Some (join '','' (replicate (nat n)
             (''unsharp='' @ py_str (get_or c ''msize'' (VInt 5))
              @ '':'' @ py_str (get_or c ''msize'' (VInt 5))
              @ '':'' @ py_str (get_or c ''amount'' f1_0)))))"
    using assms by (rule build_deblur_multi)
next
  assume a: "n = 3 \<and> get_or c ''msize'' (VInt 5) = VInt 5 \<and> get_or c ''amount'' f1_0 = f1_0
        \<and> flag_off kvs ''eq'' ''enabled''
        \<and> flag_off kvs ''sharpen'' ''enabled'' \<and> flag_off kvs ''sharpen'' ''extra_enabled''
        \<and> flag_off kvs ''denoise'' ''enabled''
        \<and> flag_off kvs ''blur'' ''enabled'' \<and> flag_off kvs ''grain'' ''enabled''
        \<and> channels_identity kvs \<and> custom_empty kvs"
  have "replicate (nat 3) x = [x, x, x]" for x :: string
    by (simp add: numeral_3_eq_3)
  with a have "build_deblur (VDict kvs)
      = Inr (Some ''unsharp=5:5:1.0,unsharp=5:5:1.0,unsharp=5:5:1.0'')"
    using build_deblur_multi [OF assms] by (simp add: py_str_consts)
  with a show "main_filter_chain (VDict kvs)
             = Inr ''unsharp=5:5:1.0,unsharp=5:5:1.0,unsharp=5:5:1.0''"
    by (simp add: main_filter_chain_def add_filter_None build_eq_off build_unsharp_off
      build_extra_sharpen_off build_denoise_off build_blur_off build_grain_off
      build_color_channel_identity build_custom_empty add_filter_plain is_space_def)
qed

theorem unsharp_multi_passes_witness:
  "build_deblur (VDict [(''deblur'', VDict [(''enabled'', VBool True),
       (''method'', VStr ''unsharp_multi''), (''passes'', VInt 3), (''amount'', f1_0),
       (''msize'', VInt 5)])])
     = Inr (Some ''unsharp=5:5:1.0,unsharp=5:5:1.0,unsharp=5:5:1.0'')
   \<and> main_filter_chain (VDict [(''deblur'', VDict [(''enabled'', VBool True),
       (''method'', VStr ''unsharp_multi''), (''passes'', VInt 3), (''amount'', f1_0),
       (''msize'', VInt 5)])])
     = Inr ''unsharp=5:5:1.0,unsharp=5:5:1.0,unsharp=5:5:1.0''
   \<and> build_deblur (VDict [(''deblur'', VDict [(''enabled'', VBool True),
       (''method'', VStr ''unsharp_multi'')])])
     = Inr (Some ''unsharp=5:5:1.0,unsharp=5:5:1.0'')"
  using unsharp_multi_passes [of "[(''deblur'', VDict [(''enabled'', VBool True),
       (''method'', VStr ''unsharp_multi''), (''passes'', VInt 3), (''amount'', f1_0),
       (''msize'', VInt 5)])]" "[(''enabled'', VBool True),
       (''method'', VStr ''unsharp_multi''), (''passes'', VInt 3), (''amount'', f1_0),
       (''msize'', VInt 5)]" 3]
    unsharp_multi_passes [of "[(''deblur'', VDict [(''enabled'', VBool True),
       (''method'', VStr ''unsharp_multi'')])]" "[(''enabled'', VBool True),
       (''method'', VStr ''unsharp_multi'')]" 2]
  by (simp add: deblur_multi_def get_or_def flag_off_def channels_identity_def custom_empty_def
      py_str_consts numeral_3_eq_3 numeral_2_eq_2)

subsection \<open>Integer colour channels\<close>

text \<open>
  C9. The comparison of the channels with 1.0 is by value: with the integers red 1,
  green 1 and blue 1 the color-channel-mix builder yields no stage, and the program
  behaves as on the configuration without the section.
\<close>

theorem integer_channels_identity:
  assumes "map_of kvs ''color_channels'' = Some (VDict cc)"
    and "map_of cc ''red'' = Some (VInt 1)"
    and "map_of cc ''green'' = Some (VInt 1)"
    and "map_of cc ''blue'' = Some (VInt 1)"
  shows "build_color_channel (VDict kvs) = Inr None
    \<and> main_filter_chain (VDict kvs)
        = main_filter_chain (VDict (without ''color_channels'' kvs))"
proof -
  have 1: "build_color_channel (VDict kvs) = Inr None"
    using assms by (simp add: build_color_channel_def)
  then have "main_filter_chain (VDict kvs)
      = main_filter_chain (VDict (without ''color_channels'' kvs))"
    by (rule main_without_color_channels) (simp add: add_filter_None)
  with 1 show ?thesis by simp
qed

theorem integer_channels_identity_witness:
  "build_color_channel (VDict [(''color_channels'',
       VDict [(''red'', VInt 1), (''green'', VInt 1), (''blue'', VInt 1)]),
       (''blur'', VDict [(''enabled'', VBool True)])]) = Inr None
   \<and> main_filter_chain (VDict [(''color_channels'',
       VDict [(''red'', VInt 1), (''green'', VInt 1), (''blue'', VInt 1)]),
       (''blur'', VDict [(''enabled'', VBool True)])])
     = main_filter_chain (VDict [(''blur'', VDict [(''enabled'', VBool True)])])"
  using integer_channels_identity [of "[(''color_channels'',
       VDict [(''red'', VInt 1), (''green'', VInt 1), (''blue'', VInt 1)]),
       (''blur'', VDict [(''enabled'', VBool True)])]"
       "[(''red'', VInt 1), (''green'', VInt 1), (''blue'', VInt 1)]"]
  by (simp add: without_def)

subsection \<open>No pass\<close>

text \<open>
  C10. With deblur enabled, the method \<^verbatim>\<open>unsharp_multi\<close> and \<^verbatim>\<open>passes\<close> an integer
  that is zero or negative, the deblur builder returns the empty string, the assembler
  drops it, and the program behaves as on the configuration without the deblur section.
\<close>

theorem no_passes_no_stage:
  assumes "deblur_multi kvs c" and "map_of c ''passes'' = Some (VInt n)" and "n \<le> 0"
  shows "build_deblur (VDict kvs) = Inr (Some [])
    \<and> add_filter filters (Some []) = filters
    \<and> main_filter_chain (VDict kvs) = main_filter_chain (VDict (without ''deblur'' kvs))"
proof -
  from assms(2) have "get_or c ''passes'' (VInt 2) = VInt n"
    by (simp add: get_or_def)
  with assms(1) have "build_deblur (VDict kvs) =
           Inr (Some (join '','' (replicate (nat n)
             (''unsharp='' @ py_str (get_or c ''msize'' (VInt 5))
              @ '':'' @ py_str (get_or c ''msize'' (VInt 5))
              @ '':'' @ py_str (get_or c ''amount'' f1_0)))))"
    by (rule build_deblur_multi)
  with assms(3) have 1: "build_deblur (VDict kvs) = Inr (Some [])" by simp
  have 2: "add_filter fs (Some []) = fs" for fs
    by (simp add: add_filter_def)
  from 1 have "main_filter_chain (VDict kvs) = main_filter_chain (VDict (without ''deblur'' kvs))"
    by (rule main_without_deblur) (rule 2)
  with 1 2 show ?thesis by simp
qed

theorem no_passes_no_stage_witness:
  "build_deblur (VDict [(''deblur'', VDict [(''enabled'', VBool True),
       (''method'', VStr ''unsharp_multi''), (''passes'', VInt 0)]),
       (''blur'', VDict [(''enabled'', VBool True)])]) = Inr (Some [])
   \<and> add_filter [''eq=contrast=1.2''] (Some []) = [''eq=contrast=1.2'']
   \<and> main_filter_chain (VDict [(''deblur'', VDict [(''enabled'', VBool True),
       (''method'', VStr ''unsharp_multi''), (''passes'', VInt 0)]),
       (''blur'', VDict [(''enabled'', VBool True)])])
     = main_filter_chain (VDict [(''blur'', VDict [(''enabled'', VBool True)])])"
  using no_passes_no_stage [of "[(''deblur'', VDict [(''enabled'', VBool True),
       (''method'', VStr ''unsharp_multi''), (''passes'', VInt 0)]),
       (''blur'', VDict [(''enabled'', VBool True)])]"
       "[(''enabled'', VBool True), (''method'', VStr ''unsharp_multi''), (''passes'', VInt 0)]"
       0 "[''eq=contrast=1.2'']"]
  by (simp add: deblur_multi_def get_or_def without_def)

end
